theory Spec2Isabelle
  imports Complex_Main
begin

section \<open>Python values, strings and process outcomes\<close>

text \<open>
  A model of \<^verbatim>\<open>certissue.py\<close>: the validators, the roster loader, the batch renderer and
  \<^verbatim>\<open>main\<close>, over an explicit world of fonts, images, CSV files and saved files.
  The program is a command-line script. Every run ends in \<^verbatim>\<open>sys.exit\<close> or in an
  uncaught exception, so every function of the model returns a value of a sum type whose
  left summand is the way the process ended.  \<open>SystemExit (Some m)\<close> is
  \<^verbatim>\<open>sys.exit(m)\<close>, \<open>SystemExit None\<close> is \<^verbatim>\<open>sys.exit()\<close>; the other constructors are the
  exceptions that the script lets propagate.
\<close>

datatype error =
    SystemExit "string option"
  | IndexError
  | KeyError string
  | CannotOpen string
  | DecodeError string
  | FontError string
  | DrawError string
  | SaveError string

text \<open>
  A cell of a \<^verbatim>\<open>csv.DictReader\<close> row is a string, or \<^verbatim>\<open>None\<close> where the row is shorter
  than the header.  \<open>format_value\<close> is what an f-string makes of it.
\<close>

datatype pyval = PyNone | PyStr string

fun format_value :: "pyval \<Rightarrow> string" where
  "format_value PyNone = ''None''"
| "format_value (PyStr s) = s"

text \<open>
  \<^verbatim>\<open>str.lower\<close> on the letters A to Z; every other character is kept.  Strings are
  lists of 8-bit characters; on the comparisons of this program (against \<^verbatim>\<open>"on"\<close>,
  \<^verbatim>\<open>"off"\<close>, \<^verbatim>\<open>".png"\<close>, \<^verbatim>\<open>".csv"\<close>) no character outside A to Z is lowered to one of
  the letters compared.
\<close>

definition lower_table :: "(char \<times> char) list" where
  "lower_table = zip ''ABCDEFGHIJKLMNOPQRSTUVWXYZ'' ''abcdefghijklmnopqrstuvwxyz''"

definition lower_char :: "char \<Rightarrow> char" where
  "lower_char c = (case map_of lower_table c of Some d \<Rightarrow> d | None \<Rightarrow> c)"

definition lower :: "string \<Rightarrow> string" where
  "lower s = map lower_char s"

text \<open>
  Python list indexing \<^verbatim>\<open>xs[i]\<close>: a negative index counts from the end, an index out of
  range raises \<^verbatim>\<open>IndexError\<close>.
\<close>

definition index :: "'a list \<Rightarrow> int \<Rightarrow> error + 'a" where
  "index xs i =
     (if 0 \<le> i \<and> i < int (length xs) then Inr (xs ! nat i)
      else if - int (length xs) \<le> i \<and> i < 0 then Inr (xs ! nat (int (length xs) + i))
      else Inl IndexError)"

section \<open>\<^verbatim>\<open>os.path.splitext\<close>\<close>

text \<open>
  The standard library's \<^verbatim>\<open>posixpath.splitext\<close> (\<^verbatim>\<open>genericpath._splitext\<close> with
  separator \<^verbatim>\<open>/\<close> and no alternative separator): the extension starts at the last dot
  of the last path component, unless that component has only dots before it.
  \<open>rfind\<close> is \<^verbatim>\<open>str.rfind\<close> for a single character: the highest index holding it,
  or \<open>-1\<close>.  \<open>slice p a b\<close> is \<^verbatim>\<open>p[a:b]\<close> for indices that are not negative, the only
  ones \<^verbatim>\<open>_splitext\<close> uses.
\<close>

fun rfind_from :: "char \<Rightarrow> string \<Rightarrow> int \<Rightarrow> int \<Rightarrow> int" where
  "rfind_from c [] i found = found"
| "rfind_from c (d # ds) i found = rfind_from c ds (i + 1) (if d = c then i else found)"

definition rfind :: "string \<Rightarrow> char \<Rightarrow> int" where
  "rfind p c = rfind_from c p 0 (- 1)"

definition slice :: "string \<Rightarrow> int \<Rightarrow> int \<Rightarrow> string" where
  "slice p a b = drop (nat a) (take (nat b) p)"

function splitext_scan :: "string \<Rightarrow> int \<Rightarrow> int \<Rightarrow> string \<times> string" where
  "splitext_scan p filenameIndex dotIndex =
     (if filenameIndex < dotIndex then
        (if slice p filenameIndex (filenameIndex + 1) \<noteq> ''.''
         then (slice p 0 dotIndex, drop (nat dotIndex) p)
         else splitext_scan p (filenameIndex + 1) dotIndex)
      else (p, []))"
  by pat_completeness auto
termination
  by (relation "measure (\<lambda>(p, filenameIndex, dotIndex). nat (dotIndex - filenameIndex))") auto

declare splitext_scan.simps [simp del]

definition splitext :: "string \<Rightarrow> string \<times> string" where
  "splitext p =
     (let sepIndex = rfind p CHR ''/'';
          dotIndex = rfind p CHR ''.''
      in if dotIndex > sepIndex then splitext_scan p (sepIndex + 1) dotIndex else (p, []))"

section \<open>The validators that read no file\<close>

definition validate_test_mode :: "string \<Rightarrow> error + bool" where
  "validate_test_mode test_mode =
     (if lower test_mode \<noteq> ''on'' \<and> lower test_mode \<noteq> ''off''
      then Inl (SystemExit (Some ''Test mode must either be ON or OFF''))
      else Inr True)"

definition validate_image_extension :: "string \<Rightarrow> error + bool" where
  "validate_image_extension certification =
     (let name_and_extension = splitext certification;
          extension = lower (snd name_and_extension)
      in if lower extension = ''.png'' then Inr True
         else Inl (SystemExit (Some ''Certification is not a .PNG file'')))"

definition validate_csv_extension :: "string \<Rightarrow> error + bool" where
  "validate_csv_extension csv_file =
     (let name_and_extension = splitext csv_file;
          extension = lower (snd name_and_extension)
      in if extension = ''.csv'' then Inr True
         else Inl (SystemExit (Some ''CSV file is not a .csv file'')))"

definition validate_rgb_colors :: "int \<Rightarrow> int \<Rightarrow> int \<Rightarrow> error + bool" where
  "validate_rgb_colors red green blue =
     (if red > 255 \<or> red < 0
      then Inl (SystemExit (Some ''Red must have value of range [0,255]''))
      else if green > 255 \<or> green < 0
      then Inl (SystemExit (Some ''Green must have value of range [0,255]''))
      else if blue > 255 \<or> blue < 0
      then Inl (SystemExit (Some ''Blue must have value of range [0,255]''))
      else Inr True)"

section \<open>The files the program reads and writes\<close>

text \<open>
  An image is its pixel size, its bands (the mode of PIL) and the texts composited onto it; the pixels of
  the template itself stay abstract.  A \<open>saved_file\<close> is one call of \<^verbatim>\<open>Image.save\<close>:
  the file name, the \<^verbatim>\<open>format\<close> argument, the image saved and the other keyword
  arguments, under the names the call site spells.
\<close>

record drawn_text =
  text_xy :: "int \<times> int"
  text_string :: string
  text_font :: string
  text_size :: int
  text_fill :: "int \<times> int \<times> int \<times> int"

record image =
  width :: int
  height :: int
  bands :: string
  marks :: "drawn_text list"

record saved_file =
  file_name :: string
  file_format :: string
  picture :: image
  params :: "(string \<times> real) list"

text \<open>
  The world of a run.  \<open>fonts_dir\<close> is what \<^verbatim>\<open>os.listdir("fonts")\<close> returns (\<open>None\<close>: no
  such directory); \<open>images\<close> holds the images \<^verbatim>\<open>Image.open\<close> can open, by file name, and
  \<open>decodes\<close> tells whether the pixels of the file of that name can be read, as
  \<^verbatim>\<open>convert\<close> does after the lazy \<^verbatim>\<open>Image.open\<close>;
  \<open>csv_files\<close> holds, by file name, the rows \<^verbatim>\<open>csv.reader\<close> yields for the file (a blank
  line is the row \<open>[]\<close>); \<open>font_loads\<close> tells whether \<^verbatim>\<open>ImageFont.truetype\<close> accepts a
  path and a size; \<open>draws\<close> tells whether \<^verbatim>\<open>ImageDraw.text\<close> draws a text (its position,
  string, font, size and fill) on an overlay of a pixel size, rather than raise, as it does
  on a text too large to rasterise or on a coordinate or colour beyond the machine
  integers; \<open>writable\<close> tells whether a file of that name can be written.  \<open>stdout\<close> and
  \<open>written\<close> record the effects: the lines printed and the files saved, in order.
\<close>

record world =
  fonts_dir :: "string list option"
  images :: "string \<rightharpoonup> image"
  decodes :: "string \<Rightarrow> bool"
  csv_files :: "string \<rightharpoonup> string list list"
  font_loads :: "string \<Rightarrow> int \<Rightarrow> bool"
  draws :: "drawn_text \<Rightarrow> int \<times> int \<Rightarrow> bool"
  writable :: "string \<Rightarrow> bool"
  stdout :: "string list"
  written :: "saved_file list"

text \<open>The parsed command line (\<^verbatim>\<open>parse_arguments\<close>), one field per flag.\<close>

record args =
  arg_x :: int
  arg_y :: int
  arg_i :: string
  arg_fo :: string
  arg_s :: int
  arg_fi :: string
  arg_t :: string
  arg_r :: int
  arg_g :: int
  arg_b :: int

text \<open>A roster entry: the dictionary with the keys \<^verbatim>\<open>first_name\<close> and \<^verbatim>\<open>last_name\<close>.\<close>

record entry =
  first_name :: pyval
  last_name :: pyval

section \<open>The validators that read the world\<close>

definition validate_font :: "string \<Rightarrow> world \<Rightarrow> (error + bool) \<times> world" where
  "validate_font font_name w =
     (case fonts_dir w of
        None \<Rightarrow> (Inl (CannotOpen ''fonts''), w)
      | Some fonts_list \<Rightarrow>
          if font_name \<notin> set fonts_list
          then (Inl (SystemExit None),
                w\<lparr>stdout := stdout w @ ''Available fonts:'' # fonts_list\<rparr>)
          else (Inr True, w))"

definition validate_coordinates :: "int \<Rightarrow> int \<Rightarrow> string \<Rightarrow> world \<Rightarrow> error + bool" where
  "validate_coordinates x y certification w =
     (case images w certification of
        None \<Rightarrow> Inl (CannotOpen certification)
      | Some img \<Rightarrow>
          if x > width img \<or> x < 0 \<or> y < 0 \<or> y > height img
          then Inl (SystemExit (Some ''Invalid (x,y) coordinates''))
          else Inr True)"

section \<open>The roster loader\<close>

text \<open>
  \<^verbatim>\<open>csv.DictReader\<close>: the first row is the header; a later row that is \<open>[]\<close> is skipped;
  any other row becomes \<^verbatim>\<open>dict(zip(fieldnames, row))\<close> (of two columns of one name the
  later wins), and the header's columns beyond the row's length are set to \<^verbatim>\<open>None\<close>.
  The cells beyond the header's length go under the key \<^verbatim>\<open>None\<close>, which no lookup of
  this program reads.
\<close>

definition row_dict :: "string list \<Rightarrow> string list \<Rightarrow> (string \<rightharpoonup> pyval)" where
  "row_dict fieldnames row =
     fold (\<lambda>key d. d(key \<mapsto> PyNone)) (drop (length row) fieldnames)
       (fold (\<lambda>(key, cell) d. d(key \<mapsto> PyStr cell)) (zip fieldnames row) Map.empty)"

fun read_rows ::
  "string list \<Rightarrow> string list list \<Rightarrow> entry list \<Rightarrow> int \<Rightarrow> error + (entry list \<times> int)" where
  "read_rows fieldnames [] names number_of_rows = Inr (names, number_of_rows)"
| "read_rows fieldnames (row # rest) names number_of_rows =
     (if row = [] then read_rows fieldnames rest names number_of_rows
      else
        (case row_dict fieldnames row ''First name'' of
           None \<Rightarrow> Inl (KeyError ''First name'')
         | Some first_cell \<Rightarrow>
             (case row_dict fieldnames row ''Last name'' of
                None \<Rightarrow> Inl (KeyError ''Last name'')
              | Some last_cell \<Rightarrow>
                  read_rows fieldnames rest
                    (names @ [\<lparr>first_name = first_cell, last_name = last_cell\<rparr>])
                    (number_of_rows + 1))))"

definition get_full_name :: "string \<Rightarrow> world \<Rightarrow> error + (entry list \<times> int)" where
  "get_full_name csv_file w =
     (case csv_files w csv_file of
        None \<Rightarrow> Inl (CannotOpen csv_file)
      | Some [] \<Rightarrow> Inr ([], 0)
      | Some (fieldnames # rows) \<Rightarrow> read_rows fieldnames rows [] 0)"

section \<open>The batch renderer\<close>

definition convert :: "string \<Rightarrow> image \<Rightarrow> image" where
  "convert m im = im\<lparr>bands := m\<rparr>"

definition alpha_composite :: "image \<Rightarrow> image \<Rightarrow> image" where
  "alpha_composite base txt = base\<lparr>marks := marks base @ marks txt\<rparr>"

definition full_name :: "entry \<Rightarrow> string" where
  "full_name person = format_value (first_name person) @ '' '' @ format_value (last_name person)"

text \<open>
  \<^verbatim>\<open>Image.save\<close>: the file is written and joins the log; a PNG written can be opened
  and read again under its name, a PDF cannot be opened.
\<close>

definition save ::
  "image \<Rightarrow> string \<Rightarrow> string \<Rightarrow> (string \<times> real) list \<Rightarrow> world \<Rightarrow> error + world" where
  "save im name fmt kwargs w =
     (if writable w name
      then Inr (w\<lparr>written := written w @
                    [\<lparr>file_name = name, file_format = fmt, picture = im, params = kwargs\<rparr>],
                  images := (if fmt = ''PNG'' then (images w)(name \<mapsto> im)
                             else (images w)(name := None)),
                  decodes := (if fmt = ''PNG'' then (decodes w)(name := True)
                              else decodes w)\<rparr>)
      else Inl (SaveError name))"

text \<open>
  The arguments of the call \<^verbatim>\<open>d.text\<close> for one roster entry: the position, the string
  \<^verbatim>\<open>{first_name} {last_name}\<close>, the font and its size, the colour at full opacity.
\<close>

definition entry_text ::
  "int \<Rightarrow> int \<Rightarrow> string \<Rightarrow> int \<Rightarrow> int \<Rightarrow> int \<Rightarrow> int \<Rightarrow> entry \<Rightarrow> drawn_text" where
  "entry_text x y font_name font_size red green blue person =
     \<lparr>text_xy = (x, y), text_string = full_name person,
      text_font = ''fonts/'' @ font_name, text_size = font_size,
      text_fill = (red, green, blue, 255)\<rparr>"

text \<open>
  The body both branches of \<^verbatim>\<open>issue_certificates\<close> share, up to \<^verbatim>\<open>alpha_composite\<close>:
  open the template and convert it to RGBA (which reads its pixels), make the transparent
  overlay of the same size, load the font, look up entry \<open>i\<close>, draw its text on the
  overlay, composite.  The steps fail in the order the source runs them.
\<close>

definition compose ::
  "entry list \<Rightarrow> int \<Rightarrow> int \<Rightarrow> int \<Rightarrow> string \<Rightarrow> string \<Rightarrow> int \<Rightarrow> int \<Rightarrow> int \<Rightarrow> int \<Rightarrow>
   world \<Rightarrow> error + image" where
  "compose names_list i x y certification font_name font_size red green blue w =
     (case images w certification of
        None \<Rightarrow> Inl (CannotOpen certification)
      | Some img \<Rightarrow>
          if \<not> decodes w certification then Inl (DecodeError certification)
          else
          (let base = convert ''RGBA'' img;
               txt = \<lparr>width = width base, height = height base, bands = ''RGBA'', marks = []\<rparr>
           in if \<not> font_loads w (''fonts/'' @ font_name) font_size
              then Inl (FontError font_name)
              else
                (case index names_list i of
                   Inl e \<Rightarrow> Inl e
                 | Inr person \<Rightarrow>
                     (let t = entry_text x y font_name font_size red green blue person
                      in if \<not> draws w t (width txt, height txt)
                         then Inl (DrawError (text_string t))
                         else Inr (alpha_composite base (txt\<lparr>marks := [t]\<rparr>))))))"

text \<open>\<^verbatim>\<open>range(n)\<close> and a \<^verbatim>\<open>for\<close> loop whose body may end the process.\<close>

definition py_range :: "int \<Rightarrow> int list" where
  "py_range n = map int [0..<nat n]"

fun for_each :: "('a \<Rightarrow> world \<Rightarrow> error option \<times> world) \<Rightarrow> 'a list \<Rightarrow> world \<Rightarrow> error option \<times> world" where
  "for_each body [] w = (None, w)"
| "for_each body (i # rest) w =
     (case body i w of
        (Some e, w') \<Rightarrow> (Some e, w')
      | (None, w') \<Rightarrow> for_each body rest w')"

text \<open>One iteration of the loop of FULL mode.\<close>

definition issue_row ::
  "entry list \<Rightarrow> int \<Rightarrow> int \<Rightarrow> string \<Rightarrow> string \<Rightarrow> int \<Rightarrow> int \<Rightarrow> int \<Rightarrow> int \<Rightarrow> int \<Rightarrow>
   world \<Rightarrow> error option \<times> world" where
  "issue_row names_list x y certification font_name font_size red green blue i w =
     (case compose names_list i x y certification font_name font_size red green blue w of
        Inl e \<Rightarrow> (Some e, w)
      | Inr output \<Rightarrow>
          (case index names_list i of
             Inl e \<Rightarrow> (Some e, w)
           | Inr person \<Rightarrow>
               (case save (convert ''RGB'' output) (full_name person @ ''.pdf'') ''PDF''
                       [(''resoultion'', 100)] w of
                  Inl e \<Rightarrow> (Some e, w)
                | Inr w1 \<Rightarrow>
                    (case save output (full_name person @ ''.PNG'') ''PNG''
                            [(''resolution'', 100)] w1 of
                       Inl e \<Rightarrow> (Some e, w1)
                     | Inr w2 \<Rightarrow> (None, w2)))))"

definition issue_certificates ::
  "entry list \<Rightarrow> int \<Rightarrow> int \<Rightarrow> int \<Rightarrow> string \<Rightarrow> string \<Rightarrow> string \<Rightarrow> int \<Rightarrow> string \<Rightarrow>
   int \<Rightarrow> int \<Rightarrow> int \<Rightarrow> world \<Rightarrow> error \<times> world" where
  "issue_certificates names_list number_of_rows x y certification csv_file font_name font_size
       mode red green blue w =
     (if lower mode = ''on'' then
        (case compose names_list 0 x y certification font_name font_size red green blue w of
           Inl e \<Rightarrow> (e, w)
         | Inr output \<Rightarrow>
             (case save (convert ''RGB'' output) ''TEST.pdf'' ''PDF'' [(''resoultion'', 100)] w of
                Inl e \<Rightarrow> (e, w)
              | Inr w1 \<Rightarrow>
                  (case save output ''TEST.png'' ''PNG'' [(''resolution'', 100)] w1 of
                     Inl e \<Rightarrow> (e, w1)
                   | Inr w2 \<Rightarrow>
                       (SystemExit (Some ''TEST certificates created successfully''), w2))))
      else
        (case for_each
                (issue_row names_list x y certification font_name font_size red green blue)
                (py_range number_of_rows) w of
           (Some e, w') \<Rightarrow> (e, w')
         | (None, w') \<Rightarrow> (SystemExit (Some ''Certificates created successfully''), w')))"

section \<open>The program\<close>

definition main :: "args \<Rightarrow> world \<Rightarrow> error \<times> world" where
  "main a w =
     (case validate_test_mode (arg_t a) of
        Inl e \<Rightarrow> (e, w)
      | Inr _ \<Rightarrow>
     (case validate_font (arg_fo a) w of
        (Inl e, w1) \<Rightarrow> (e, w1)
      | (Inr _, w1) \<Rightarrow>
     (case validate_image_extension (arg_i a) of
        Inl e \<Rightarrow> (e, w1)
      | Inr _ \<Rightarrow>
     (case validate_coordinates (arg_x a) (arg_y a) (arg_i a) w1 of
        Inl e \<Rightarrow> (e, w1)
      | Inr _ \<Rightarrow>
     (case validate_csv_extension (arg_fi a) of
        Inl e \<Rightarrow> (e, w1)
      | Inr _ \<Rightarrow>
     (case validate_rgb_colors (arg_r a) (arg_g a) (arg_b a) of
        Inl e \<Rightarrow> (e, w1)
      | Inr _ \<Rightarrow>
     (case get_full_name (arg_fi a) w1 of
        Inl e \<Rightarrow> (e, w1)
      | Inr (names_list, rows_count) \<Rightarrow>
          issue_certificates names_list rows_count (arg_x a) (arg_y a) (arg_i a) (arg_fi a)
            (arg_fo a) (arg_s a) (arg_t a) (arg_r a) (arg_g a) (arg_b a) w1)))))))"

section \<open>The specification's readings\<close>

text \<open>
  What the specification calls a row's first and last name.  \<open>spec_cell header row name\<close>
  is the cell of \<open>row\<close> under the column called \<open>name\<close>: the last such column of the
  header; \<open>PyNone\<close> where the row ends before that column; nothing where the header has
  no such column.  \<open>spec_entry\<close> is the roster entry of a row.
\<close>

fun spec_cell :: "string list \<Rightarrow> string list \<Rightarrow> string \<Rightarrow> pyval option" where
  "spec_cell [] row name = None"
| "spec_cell (column # header) row name =
     (case spec_cell header (tl row) name of
        Some v \<Rightarrow> Some v
      | None \<Rightarrow>
          if column = name then Some (case row of [] \<Rightarrow> PyNone | c # _ \<Rightarrow> PyStr c)
          else None)"

definition spec_entry :: "string list \<Rightarrow> string list \<Rightarrow> entry" where
  "spec_entry header row =
     \<lparr>first_name = the (spec_cell header row ''First name''),
      last_name = the (spec_cell header row ''Last name'')\<rparr>"



text \<open>
  The six checks in the order the specification lists them: mode, font, image extension,
  coordinates, CSV extension, colours.
\<close>

definition spec_checks :: "args \<Rightarrow> world \<Rightarrow> (error + bool) list" where
  "spec_checks a w =
     [validate_test_mode (arg_t a),
      fst (validate_font (arg_fo a) w),
      validate_image_extension (arg_i a),
      validate_coordinates (arg_x a) (arg_y a) (arg_i a) w,
      validate_csv_extension (arg_fi a),
      validate_rgb_colors (arg_r a) (arg_g a) (arg_b a)]"

section \<open>A concrete run\<close>

text \<open>
  A world with one font, one 800 by 600 template and one roster of two people (and a blank
  line between them), in which fonts load at positive sizes, a text draws when its size
  is below 1000 and its coordinates and colour fit 32 bits, and any file name without a
  slash can be written.
\<close>

definition demo_world :: world where
  "demo_world =
     \<lparr>fonts_dir = Some [''FreeMono.ttf''],
      images = [''cert.png'' \<mapsto> \<lparr>width = 800, height = 600, bands = ''RGB'', marks = []\<rparr>],
      decodes = (\<lambda>name. name = ''cert.png''),
      csv_files = [''names.csv'' \<mapsto>
        [[''First name'', ''Last name''], [''Ada'', ''Lovelace''], [], [''Alan'', ''Turing'']]],
      font_loads = (\<lambda>path s. path = ''fonts/FreeMono.ttf'' \<and> 0 < s),
      draws = (\<lambda>t dims. text_size t < 1000
                 \<and> \<bar>fst (text_xy t)\<bar> < 2147483648 \<and> \<bar>snd (text_xy t)\<bar> < 2147483648
                 \<and> (case text_fill t of (r, g, b, a) \<Rightarrow>
                      \<bar>r\<bar> < 2147483648 \<and> \<bar>g\<bar> < 2147483648 \<and> \<bar>b\<bar> < 2147483648)),
      writable = (\<lambda>name. CHR ''/'' \<notin> set name),
      stdout = [],
      written = []\<rparr>"

definition demo_args :: args where
  "demo_args =
     \<lparr>arg_x = 10, arg_y = 20, arg_i = ''cert.png'', arg_fo = ''FreeMono.ttf'', arg_s = 40,
      arg_fi = ''names.csv'', arg_t = ''OFF'', arg_r = 0, arg_g = 0, arg_b = 0\<rparr>"

definition ada :: entry where
  "ada = \<lparr>first_name = PyStr ''Ada'', last_name = PyStr ''Lovelace''\<rparr>"

definition alan :: entry where
  "alan = \<lparr>first_name = PyStr ''Alan'', last_name = PyStr ''Turing''\<rparr>"

lemma demo_template:
  "images demo_world ''cert.png'' =
     Some \<lparr>width = 800, height = 600, bands = ''RGB'', marks = []\<rparr>"
  by (simp add: demo_world_def)

lemma demo_decodes: "decodes demo_world ''cert.png''"
  by (simp add: demo_world_def)

lemma demo_font: "font_loads demo_world (''fonts/'' @ ''FreeMono.ttf'') 40"
  by (simp add: demo_world_def)

lemma demo_written: "written demo_world = []"
  by (simp add: demo_world_def)

lemma demo_test_files: "writable demo_world ''TEST.pdf''" "writable demo_world ''TEST.png''"
  by (simp_all add: demo_world_def)

lemma demo_draws:
  "draws demo_world (entry_text 10 20 ''FreeMono.ttf'' 40 0 0 0 person) dims"
  by (simp add: demo_world_def entry_text_def)

section \<open>Strings, indexing and file extensions\<close>

lemma lower_ON: "lower ''ON'' = ''on''"
  by (simp add: lower_def lower_char_def lower_table_def)

lemma lower_OFF: "lower ''OFF'' \<noteq> ''on''"
  by (simp add: lower_def lower_char_def lower_table_def)

lemma lower_char_idem: "lower_char (lower_char c) = lower_char c"
  by (simp add: lower_char_def lower_table_def)

lemma lower_idem: "lower (lower s) = lower s"
  by (simp add: lower_def lower_char_idem)

lemma lower_char_dot: "lower_char c = CHR ''.'' \<longleftrightarrow> c = CHR ''.''"
  by (simp add: lower_char_def lower_table_def)

lemma lower_char_p: "lower_char c = CHR ''p'' \<longleftrightarrow> c = CHR ''p'' \<or> c = CHR ''P''"
  by (simp add: lower_char_def lower_table_def)

lemma lower_char_n: "lower_char c = CHR ''n'' \<longleftrightarrow> c = CHR ''n'' \<or> c = CHR ''N''"
  by (simp add: lower_char_def lower_table_def)

lemma lower_char_g: "lower_char c = CHR ''g'' \<longleftrightarrow> c = CHR ''g'' \<or> c = CHR ''G''"
  by (simp add: lower_char_def lower_table_def)

lemma lower_png:
  "lower e = ''.png'' \<longleftrightarrow>
     e \<in> {''.png'', ''.pnG'', ''.pNg'', ''.pNG'', ''.Png'', ''.PnG'', ''.PNg'', ''.PNG''}"
proof -
  have "lower e = ''.png'' \<longleftrightarrow>
          (\<exists>a b c d. e = [a, b, c, d] \<and> lower_char a = CHR ''.'' \<and> lower_char b = CHR ''p''
             \<and> lower_char c = CHR ''n'' \<and> lower_char d = CHR ''g'')"
    by (auto simp: lower_def map_eq_Cons_conv)
  then show ?thesis
    unfolding lower_char_dot lower_char_p lower_char_n lower_char_g by auto
qed

lemma index_zero:
  "index xs 0 = (case xs of [] \<Rightarrow> Inl IndexError | person # others \<Rightarrow> Inr person)"
  by (cases xs) (simp_all add: index_def)


lemma rfind_from_absent: "c \<notin> set ys \<Longrightarrow> rfind_from c ys i found = found"
  by (induction ys arbitrary: i found) auto

lemma rfind_from_last:
  "c \<notin> set ys \<Longrightarrow> rfind_from c (xs @ c # ys) i found = i + int (length xs)"
  by (induction xs arbitrary: i found) (auto simp: rfind_from_absent)

lemma rfind_last: "c \<notin> set ys \<Longrightarrow> rfind (xs @ c # ys) c = int (length xs)"
  by (simp add: rfind_def rfind_from_last)

lemma rfind_absent: "c \<notin> set p \<Longrightarrow> rfind p c = - 1"
  by (simp add: rfind_def rfind_from_absent)

lemma slice_one: "0 \<le> i \<Longrightarrow> nat i < length p \<Longrightarrow> slice p i (i + 1) = [p ! nat i]"
  by (simp add: slice_def nat_add_distrib take_Suc_conv_app_nth)



text \<open>The scan stops at the first character of the last component that is not a dot.\<close>

lemma splitext_scan_hit:
  assumes "0 \<le> i" and "i \<le> k" and "k < d" and "nat k < length p"
      and "p ! nat k \<noteq> CHR ''.''"
  shows "splitext_scan p i d = (take (nat d) p, drop (nat d) p)"
  using assms
proof (induction p i d rule: splitext_scan.induct)
  case (1 p i d)
  show ?case
  proof (cases "slice p i (i + 1) \<noteq> ''.''")
    case True
    with "1.prems" show ?thesis
      by (subst splitext_scan.simps) (simp add: slice_def)
  next
    case False
    with "1.prems" have "p ! nat i = CHR ''.''"
      using slice_one [of i p] by simp
    with "1.prems" have "i \<noteq> k" by auto
    with "1.prems" have "i + 1 \<le> k" by simp
    with "1.IH" False "1.prems"
    have "splitext_scan p (i + 1) d = (take (nat d) p, drop (nat d) p)"
      by simp
    with False "1.prems" show ?thesis
      by (subst splitext_scan.simps) simp
  qed
qed

text \<open>
  A last component with a character other than a dot, followed by a dot and a suffix free
  of dots and slashes: the suffix with its dot is the extension.
\<close>

lemma splitext_component:
  assumes pre: "pre = [] \<or> (\<exists>dir. pre = dir @ ''/'')"
      and base: "CHR ''/'' \<notin> set base" "\<exists>c \<in> set base. c \<noteq> CHR ''.''"
      and suf: "CHR ''/'' \<notin> set suf" "CHR ''.'' \<notin> set suf"
  shows "splitext (pre @ base @ CHR ''.'' # suf) = (pre @ base, CHR ''.'' # suf)"
proof -
  let ?p = "pre @ base @ CHR ''.'' # suf"
  have dot: "rfind ?p CHR ''.'' = int (length pre + length base)"
    using rfind_last [of "CHR ''.''" suf "pre @ base"] suf by simp
  have sep: "rfind ?p CHR ''/'' = int (length pre) - 1"
  proof (cases "pre = []")
    case True
    with base suf show ?thesis by (simp add: rfind_absent)
  next
    case False
    with pre obtain dir where dir: "pre = dir @ ''/''" by blast
    have "rfind (dir @ CHR ''/'' # (base @ CHR ''.'' # suf)) CHR ''/'' = int (length dir)"
      by (rule rfind_last) (use base suf in simp)
    with dir show ?thesis by simp
  qed
  from base obtain j where j: "j < length base" "base ! j \<noteq> CHR ''.''"
    by (metis in_set_conv_nth)
  have "splitext_scan ?p (int (length pre)) (int (length pre + length base)) =
          (take (nat (int (length pre + length base))) ?p,
           drop (nat (int (length pre + length base))) ?p)"
  proof (rule splitext_scan_hit [where k = "int (length pre + j)"])
    show "?p ! nat (int (length pre + j)) \<noteq> CHR ''.''"
      unfolding nat_int using j by (simp add: nth_append)
  qed (use j in simp_all)
  moreover have "length base > 0" using j by auto
  ultimately show ?thesis
    by (simp add: splitext_def dot sep)
qed



lemma demo_extension: "validate_image_extension ''cert.png'' = Inr True"
  by (simp add: validate_image_extension_def splitext_def rfind_def slice_def
      splitext_scan.simps lower_def lower_char_def lower_table_def)

section \<open>TEST mode\<close>

text \<open>
  Claim C1.  In TEST mode (the mode, lowered, is \<^verbatim>\<open>on\<close>), for every roster with a first
  entry, whatever follows it and whatever the count, \<open>issue_certificates\<close> renders the
  first entry only: it saves exactly two files, \<^verbatim>\<open>TEST.pdf\<close> and \<^verbatim>\<open>TEST.png\<close>, both
  carrying the text \<^verbatim>\<open>{first_name} {last_name}\<close> of the first entry at \<open>(x, y)\<close>, and then
  ends the process with the message \<^verbatim>\<open>TEST certificates created successfully\<close>.  The
  template opens and its pixels can be read, the font loads, the text of the first entry
  draws on an overlay of the template's size, and the two names can be written.
\<close>

theorem issue_certificates_test:
  assumes mode: "lower mode = ''on''"
      and template: "images w certification = Some img"
      and pixels: "decodes w certification"
      and font: "font_loads w (''fonts/'' @ font_name) font_size"
      and draw: "draws w (entry_text x y font_name font_size red green blue person)
                   (width img, height img)"
      and pdf_ok: "writable w ''TEST.pdf''"
      and png_ok: "writable w ''TEST.png''"
  shows "\<exists>pdf png.
           fst (issue_certificates (person # others) number_of_rows x y certification csv_file
                  font_name font_size mode red green blue w) =
             SystemExit (Some ''TEST certificates created successfully'')
         \<and> written (snd (issue_certificates (person # others) number_of_rows x y certification
                  csv_file font_name font_size mode red green blue w)) =
             written w @ [pdf, png]
         \<and> file_name pdf = ''TEST.pdf'' \<and> file_format pdf = ''PDF''
         \<and> file_name png = ''TEST.png'' \<and> file_format png = ''PNG''
         \<and> bands (picture pdf) = ''RGB'' \<and> bands (picture png) = ''RGBA''
         \<and> marks (picture pdf) = marks (picture png)
         \<and> marks (picture png) = marks img @
              [\<lparr>text_xy = (x, y),
                text_string = format_value (first_name person) @ '' '' @
                              format_value (last_name person),
                text_font = ''fonts/'' @ font_name, text_size = font_size,
                text_fill = (red, green, blue, 255)\<rparr>]"
  using assms
  by (simp add: issue_certificates_def compose_def entry_text_def save_def convert_def
      alpha_composite_def full_name_def index_zero Let_def)

theorem issue_certificates_test_witness:
  "lower ''ON'' = ''on''
   \<and> fst (issue_certificates [ada, alan] 2 10 20 ''cert.png'' ''names.csv'' ''FreeMono.ttf'' 40
            ''ON'' 0 0 0 demo_world) =
       SystemExit (Some ''TEST certificates created successfully'')
   \<and> map file_name (written (snd (issue_certificates [ada, alan] 2 10 20 ''cert.png''
            ''names.csv'' ''FreeMono.ttf'' 40 ''ON'' 0 0 0 demo_world))) =
       [''TEST.pdf'', ''TEST.png'']
   \<and> map (\<lambda>f. map text_string (marks (picture f)))
         (written (snd (issue_certificates [ada, alan] 2 10 20 ''cert.png''
            ''names.csv'' ''FreeMono.ttf'' 40 ''ON'' 0 0 0 demo_world))) =
       [[''Ada Lovelace''], [''Ada Lovelace'']]"
proof -
  from issue_certificates_test [OF lower_ON demo_template demo_decodes demo_font demo_draws
      demo_test_files,
      where others = "[alan]" and number_of_rows = 2 and csv_file = "''names.csv''"
        and person = ada]
  obtain pdf png where
    "fst (issue_certificates [ada, alan] 2 10 20 ''cert.png'' ''names.csv'' ''FreeMono.ttf'' 40
            ''ON'' 0 0 0 demo_world) =
       SystemExit (Some ''TEST certificates created successfully'')"
    "written (snd (issue_certificates [ada, alan] 2 10 20 ''cert.png''
            ''names.csv'' ''FreeMono.ttf'' 40 ''ON'' 0 0 0 demo_world)) = [pdf, png]"
    "file_name pdf = ''TEST.pdf''" "file_name png = ''TEST.png''"
    "marks (picture pdf) = marks (picture png)"
    "map text_string (marks (picture png)) = [''Ada Lovelace'']"
    by (auto simp: demo_written ada_def)
  with lower_ON show ?thesis by simp
qed

section \<open>FULL mode\<close>





section \<open>Coordinate, colour and extension validation\<close>

text \<open>
  Claim C3.  For a template image of width \<open>W\<close> and height \<open>H\<close> and any integers \<open>x\<close>
  and \<open>y\<close>, \<open>validate_coordinates\<close> returns \<open>True\<close> exactly when \<open>0 \<le> x \<le> W\<close> and
  \<open>0 \<le> y \<le> H\<close>, both bounds included, and otherwise ends the process with the message
  \<^verbatim>\<open>Invalid (x,y) coordinates\<close>.
\<close>

theorem validate_coordinates_iff:
  assumes "images w certification = Some img"
  shows "validate_coordinates x y certification w =
           (if 0 \<le> x \<and> x \<le> width img \<and> 0 \<le> y \<and> y \<le> height img then Inr True
            else Inl (SystemExit (Some ''Invalid (x,y) coordinates'')))"
  using assms by (auto simp: validate_coordinates_def)

theorem validate_coordinates_iff_witness:
  "images demo_world ''cert.png'' = Some \<lparr>width = 800, height = 600, bands = ''RGB'', marks = []\<rparr>
   \<and> validate_coordinates 800 600 ''cert.png'' demo_world = Inr True
   \<and> validate_coordinates 0 0 ''cert.png'' demo_world = Inr True
   \<and> validate_coordinates 801 600 ''cert.png'' demo_world =
       Inl (SystemExit (Some ''Invalid (x,y) coordinates''))
   \<and> validate_coordinates 3 (- 1) ''cert.png'' demo_world =
       Inl (SystemExit (Some ''Invalid (x,y) coordinates''))"
  using demo_template
    validate_coordinates_iff [OF demo_template, of 800 600]
    validate_coordinates_iff [OF demo_template, of 0 0]
    validate_coordinates_iff [OF demo_template, of 801 600]
    validate_coordinates_iff [OF demo_template, of 3 "- 1"]
  by simp

text \<open>
  Claim C4.  For all integers \<open>red\<close>, \<open>green\<close>, \<open>blue\<close>, \<open>validate_rgb_colors\<close> returns
  \<open>True\<close> exactly when each of the three lies in \<open>[0, 255]\<close>; otherwise it ends the process
  with a message that names a channel out of range (the first of red, green, blue that is)
  and the range \<open>[0,255]\<close>.
\<close>

theorem validate_rgb_colors_iff:
  "(validate_rgb_colors red green blue = Inr True \<longleftrightarrow>
      (0 \<le> red \<and> red \<le> 255) \<and> (0 \<le> green \<and> green \<le> 255) \<and> (0 \<le> blue \<and> blue \<le> 255))
   \<and> (red < 0 \<or> 255 < red \<longrightarrow>
        validate_rgb_colors red green blue =
          Inl (SystemExit (Some ''Red must have value of range [0,255]'')))
   \<and> (0 \<le> red \<and> red \<le> 255 \<and> (green < 0 \<or> 255 < green) \<longrightarrow>
        validate_rgb_colors red green blue =
          Inl (SystemExit (Some ''Green must have value of range [0,255]'')))
   \<and> (0 \<le> red \<and> red \<le> 255 \<and> 0 \<le> green \<and> green \<le> 255 \<and> (blue < 0 \<or> 255 < blue) \<longrightarrow>
        validate_rgb_colors red green blue =
          Inl (SystemExit (Some ''Blue must have value of range [0,255]'')))"
  by (auto simp: validate_rgb_colors_def)

theorem validate_rgb_colors_iff_witness:
  "validate_rgb_colors 0 255 128 = Inr True
   \<and> validate_rgb_colors 256 0 0 =
       Inl (SystemExit (Some ''Red must have value of range [0,255]''))
   \<and> validate_rgb_colors 0 (- 1) 0 =
       Inl (SystemExit (Some ''Green must have value of range [0,255]''))
   \<and> validate_rgb_colors 255 255 256 =
       Inl (SystemExit (Some ''Blue must have value of range [0,255]''))"
  using validate_rgb_colors_iff [of 0 255 128] validate_rgb_colors_iff [of 256 0 0]
    validate_rgb_colors_iff [of 0 "- 1" 0] validate_rgb_colors_iff [of 255 255 256]
  by simp

text \<open>
  Claim C5.  For every file name, \<open>validate_image_extension\<close> returns \<open>True\<close> exactly when
  the extension of the name (what \<^verbatim>\<open>os.path.splitext\<close> splits off), lowered, is \<^verbatim>\<open>.png\<close>,
  that is when the extension is one of the eight spellings of \<^verbatim>\<open>.png\<close> in either case;
  otherwise it ends the process with the message \<^verbatim>\<open>Certification is not a .PNG file\<close>.
  So every name whose last component has a character other than a dot before one of the
  eight spellings passes, with or without a directory in front; \<^verbatim>\<open>cert.PNG\<close>,
  \<^verbatim>\<open>cert.png\<close> and \<^verbatim>\<open>cert.Png\<close> pass and \<^verbatim>\<open>cert.jpg\<close> does not.
\<close>

theorem validate_image_extension_iff:
  "validate_image_extension certification =
     (if lower (snd (splitext certification)) = ''.png'' then Inr True
      else Inl (SystemExit (Some ''Certification is not a .PNG file'')))
   \<and> (lower (snd (splitext certification)) = ''.png'' \<longleftrightarrow>
        snd (splitext certification) \<in>
          {''.png'', ''.pnG'', ''.pNg'', ''.pNG'', ''.Png'', ''.PnG'', ''.PNg'', ''.PNG''})
   \<and> (\<forall>dir base e.
         CHR ''/'' \<notin> set base \<and> (\<exists>c \<in> set base. c \<noteq> CHR ''.'') \<and>
         e \<in> {''.png'', ''.pnG'', ''.pNg'', ''.pNG'', ''.Png'', ''.PnG'', ''.PNg'', ''.PNG''} \<longrightarrow>
         validate_image_extension (base @ e) = Inr True \<and>
         validate_image_extension (dir @ ''/'' @ base @ e) = Inr True)
   \<and> validate_image_extension ''cert.PNG'' = Inr True
   \<and> validate_image_extension ''cert.png'' = Inr True
   \<and> validate_image_extension ''cert.Png'' = Inr True
   \<and> validate_image_extension ''cert.jpg'' =
        Inl (SystemExit (Some ''Certification is not a .PNG file''))"
proof -
  have ev: "splitext ''cert.PNG'' = (''cert'', ''.PNG'')"
    "splitext ''cert.png'' = (''cert'', ''.png'')"
    "splitext ''cert.Png'' = (''cert'', ''.Png'')"
    "splitext ''cert.jpg'' = (''cert'', ''.jpg'')"
    by (simp_all add: splitext_def rfind_def slice_def splitext_scan.simps)
  have gen: "validate_image_extension f =
     (if lower (snd (splitext f)) = ''.png'' then Inr True
      else Inl (SystemExit (Some ''Certification is not a .PNG file'')))" for f
    by (simp add: validate_image_extension_def lower_idem)
  have every: "validate_image_extension (base @ e) = Inr True \<and>
         validate_image_extension (dir @ ''/'' @ base @ e) = Inr True"
    if base: "CHR ''/'' \<notin> set base" "\<exists>c \<in> set base. c \<noteq> CHR ''.''"
      and e: "e \<in> {''.png'', ''.pnG'', ''.pNg'', ''.pNG'', ''.Png'', ''.PnG'', ''.PNg'', ''.PNG''}"
    for dir base e
  proof -
    from e obtain suf where
      suf: "e = CHR ''.'' # suf" "CHR ''/'' \<notin> set suf" "CHR ''.'' \<notin> set suf"
      by auto
    have "splitext ([] @ base @ CHR ''.'' # suf) = ([] @ base, CHR ''.'' # suf)"
      by (rule splitext_component) (use base suf in simp_all)
    moreover
    have "splitext ((dir @ ''/'') @ base @ CHR ''.'' # suf) =
            ((dir @ ''/'') @ base, CHR ''.'' # suf)"
      by (rule splitext_component) (use base suf in simp_all)
    ultimately show ?thesis
      using e suf(1) by (simp add: gen lower_png)
  qed
  have ex: "validate_image_extension ''cert.PNG'' = Inr True"
    "validate_image_extension ''cert.png'' = Inr True"
    "validate_image_extension ''cert.Png'' = Inr True"
    "validate_image_extension ''cert.jpg'' =
       Inl (SystemExit (Some ''Certification is not a .PNG file''))"
    by (simp_all add: gen ev lower_def lower_char_def lower_table_def)
  from gen [of certification] lower_png [of "snd (splitext certification)"] every ex
  show ?thesis by blast
qed

theorem validate_image_extension_iff_witness:
  "validate_image_extension ''a.b/my.cert.pNg'' = Inr True
   \<and> validate_image_extension ''.png'' =
       Inl (SystemExit (Some ''Certification is not a .PNG file''))
   \<and> validate_image_extension ''cert.png.txt'' =
       Inl (SystemExit (Some ''Certification is not a .PNG file''))"
proof -
  have "CHR ''/'' \<notin> set ''my.cert'' \<and> (\<exists>c \<in> set ''my.cert''. c \<noteq> CHR ''.'') \<and>
        ''.pNg'' \<in> {''.png'', ''.pnG'', ''.pNg'', ''.pNG'', ''.Png'', ''.PnG'', ''.PNg'', ''.PNG''}"
    by simp
  with validate_image_extension_iff [of "''.png''"]
  have "validate_image_extension (''a.b'' @ ''/'' @ ''my.cert'' @ ''.pNg'') = Inr True"
    by blast
  then have a: "validate_image_extension ''a.b/my.cert.pNg'' = Inr True"
    by simp
  have "snd (splitext ''.png'') = []" "snd (splitext ''cert.png.txt'') = ''.txt''"
    by (simp_all add: splitext_def rfind_def slice_def splitext_scan.simps)
  moreover have "lower ''.txt'' \<noteq> ''.png''" "lower [] \<noteq> ''.png''"
    by (simp_all add: lower_def lower_char_def lower_table_def)
  ultimately have
    "validate_image_extension ''.png'' =
       Inl (SystemExit (Some ''Certification is not a .PNG file''))"
    "validate_image_extension ''cert.png.txt'' =
       Inl (SystemExit (Some ''Certification is not a .PNG file''))"
    using validate_image_extension_iff [of "''.png''"]
      validate_image_extension_iff [of "''cert.png.txt''"]
    by simp_all
  with a show ?thesis by simp
qed

section \<open>The roster loader\<close>

lemma row_dict_from:
  "fold (\<lambda>key d. d(key \<mapsto> PyNone)) (drop (length row) header)
     (fold (\<lambda>(key, c) d. d(key \<mapsto> PyStr c)) (zip header row) m) name =
   (case spec_cell header row name of Some v \<Rightarrow> Some v | None \<Rightarrow> m name)"
proof (induction header arbitrary: row m)
  case Nil
  then show ?case by simp
next
  case (Cons column header)
  show ?case
  proof (cases row)
    case Nil
    with Cons.IH [of "[]" "m(column \<mapsto> PyNone)"] show ?thesis
      by (simp split: option.splits)
  next
    case (Cons c cs)
    with Cons.IH [of cs "m(column \<mapsto> PyStr c)"] show ?thesis
      by (simp split: option.splits)
  qed
qed

lemma row_dict_cell: "row_dict header row name = spec_cell header row name"
  by (simp add: row_dict_def row_dict_from split: option.splits)

lemma spec_cell_header: "name \<in> set header \<Longrightarrow> \<exists>v. spec_cell header row name = Some v"
proof (induction header arbitrary: row)
  case Nil
  then show ?case by simp
next
  case (Cons column header)
  show ?case
  proof (cases "spec_cell header (tl row) name")
    case None
    with Cons.IH [of "tl row"] Cons.prems have "column = name"
      by auto
    with None show ?thesis by simp
  next
    case (Some v)
    then show ?thesis by simp
  qed
qed

lemma read_rows_roster:
  assumes "''First name'' \<in> set header" and "''Last name'' \<in> set header"
  shows "read_rows header rows names n =
           Inr (names @ map (spec_entry header) (filter (\<lambda>row. row \<noteq> []) rows),
                n + int (length (filter (\<lambda>row. row \<noteq> []) rows)))"
proof (induction rows arbitrary: names n)
  case Nil
  then show ?case by simp
next
  case (Cons row rows)
  obtain a b where "spec_cell header row ''First name'' = Some a"
    "spec_cell header row ''Last name'' = Some b"
    using assms spec_cell_header by blast
  with Cons.IH show ?case
    by (simp add: row_dict_cell spec_entry_def)
qed

text \<open>
  Claim C6.  For every roster file whose header row has a column named \<^verbatim>\<open>First name\<close> and
  a column named \<^verbatim>\<open>Last name\<close>, \<open>get_full_name\<close> returns the entries of the data rows, in
  the order of the file, each holding the cells of its row under those two columns, and
  with them a count that is the length of the sequence returned.  The data rows are the
  rows after the header that are not blank lines: with \<open>N\<close> of them, \<open>N\<close> entries come back.
\<close>

theorem get_full_name_roster:
  assumes roster: "csv_files w csv_file = Some (header # rows)"
      and first_col: "''First name'' \<in> set header"
      and last_col: "''Last name'' \<in> set header"
  shows "\<exists>names. get_full_name csv_file w = Inr (names, int (length names))
           \<and> names = map (spec_entry header) (filter (\<lambda>row. row \<noteq> []) rows)
           \<and> length names = length (filter (\<lambda>row. row \<noteq> []) rows)"
  using roster read_rows_roster [OF first_col last_col, of rows "[]" 0]
  by (simp add: get_full_name_def)

theorem get_full_name_roster_witness:
  "csv_files demo_world ''names.csv'' =
     Some ([''First name'', ''Last name''] # [[''Ada'', ''Lovelace''], [], [''Alan'', ''Turing'']])
   \<and> ''First name'' \<in> set [''First name'', ''Last name'']
   \<and> ''Last name'' \<in> set [''First name'', ''Last name'']
   \<and> get_full_name ''names.csv'' demo_world = Inr ([ada, alan], 2)"
proof -
  have h1: "csv_files demo_world ''names.csv'' =
     Some ([''First name'', ''Last name''] # [[''Ada'', ''Lovelace''], [], [''Alan'', ''Turing'']])"
    by (simp add: demo_world_def)
  have h2: "''First name'' \<in> set [''First name'', ''Last name'']"
    and h3: "''Last name'' \<in> set [''First name'', ''Last name'']"
    by simp_all
  show ?thesis
    using h1 h2 h3 get_full_name_roster [OF h1 h2 h3]
    by (simp add: spec_entry_def ada_def alan_def)
qed

section \<open>Validation before rendering\<close>

lemma validate_font_world:
  "snd (validate_font font_name w) = w\<lparr>stdout := stdout (snd (validate_font font_name w))\<rparr>"
  by (simp add: validate_font_def split: option.splits)

lemma validate_font_ok:
  "fst (validate_font font_name w) = Inr b \<Longrightarrow> snd (validate_font font_name w) = w"
  by (simp add: validate_font_def split: option.splits if_splits)

text \<open>
  When one of the six checks fails, \<open>main\<close> ends with the failure of the first that does,
  in a world that differs from the initial one in the lines printed at most.
\<close>

lemma main_stops:
  assumes "find isl (spec_checks a w) = Some (Inl e)"
  shows "\<exists>out. main a w = (e, w\<lparr>stdout := out\<rparr>)"
proof -
  have keep: "\<exists>out. (e', w) = (e', w\<lparr>stdout := out\<rparr>)" for e' :: error
    by (rule exI [of _ "stdout w"]) simp
  obtain r2 w1 where vf: "validate_font (arg_fo a) w = (r2, w1)"
    by (cases "validate_font (arg_fo a) w")
  show ?thesis
  proof (cases "validate_test_mode (arg_t a)")
    case (Inl e1)
    with assms keep [of e] show ?thesis by (simp add: spec_checks_def main_def)
  next
    case c1: (Inr b1)
    show ?thesis
    proof (cases r2)
      case (Inl e2)
      moreover have "w1 = w\<lparr>stdout := stdout w1\<rparr>"
        using validate_font_world [of "arg_fo a" w] vf by simp
      then have "\<exists>out. (e, w1) = (e, w\<lparr>stdout := out\<rparr>)"
        by (metis (full_types))
      ultimately show ?thesis
        using assms c1 vf by (simp add: spec_checks_def main_def)
    next
      case c2: (Inr b2)
      with vf have same: "w1 = w"
        using validate_font_ok [of "arg_fo a" w b2] by simp
      show ?thesis
      proof (cases "validate_image_extension (arg_i a)")
        case (Inl e3)
        with assms c1 c2 vf same keep [of e] show ?thesis
          by (simp add: spec_checks_def main_def)
      next
        case c3: (Inr b3)
        show ?thesis
        proof (cases "validate_coordinates (arg_x a) (arg_y a) (arg_i a) w")
          case (Inl e4)
          with assms c1 c2 c3 vf same keep [of e] show ?thesis
            by (simp add: spec_checks_def main_def)
        next
          case c4: (Inr b4)
          show ?thesis
          proof (cases "validate_csv_extension (arg_fi a)")
            case (Inl e5)
            with assms c1 c2 c3 c4 vf same keep [of e] show ?thesis
              by (simp add: spec_checks_def main_def)
          next
            case c5: (Inr b5)
            show ?thesis
            proof (cases "validate_rgb_colors (arg_r a) (arg_g a) (arg_b a)")
              case (Inl e6)
              with assms c1 c2 c3 c4 c5 vf same keep [of e] show ?thesis
                by (simp add: spec_checks_def main_def)
            next
              case (Inr b6)
              with assms c1 c2 c3 c4 c5 vf show ?thesis by (simp add: spec_checks_def)
            qed
          qed
        qed
      qed
    qed
  qed
qed

lemma demo_checks: "find isl (spec_checks demo_args demo_world) = None"
  by (simp add: spec_checks_def demo_args_def demo_world_def validate_test_mode_def
      validate_font_def validate_image_extension_def validate_coordinates_def
      validate_csv_extension_def validate_rgb_colors_def splitext_def rfind_def slice_def
      splitext_scan.simps lower_def lower_char_def lower_table_def)

lemma demo_roster: "get_full_name ''names.csv'' demo_world = Inr ([ada, alan], 2)"
  by (simp add: get_full_name_def demo_world_def row_dict_def ada_def alan_def)

lemma demo_main_files:
  "map file_name (written (snd (main demo_args demo_world))) =
     [''Ada Lovelace.pdf'', ''Ada Lovelace.PNG'', ''Alan Turing.pdf'', ''Alan Turing.PNG'']"
proof -
  have checks: "validate_test_mode ''OFF'' = Inr True"
    "validate_font ''FreeMono.ttf'' demo_world = (Inr True, demo_world)"
    "validate_coordinates 10 20 ''cert.png'' demo_world = Inr True"
    "validate_csv_extension ''names.csv'' = Inr True"
    "validate_rgb_colors 0 0 0 = Inr True"
    by (simp_all add: demo_world_def validate_test_mode_def validate_font_def
        validate_coordinates_def validate_csv_extension_def validate_rgb_colors_def
        splitext_def rfind_def slice_def splitext_scan.simps lower_def lower_char_def
        lower_table_def)
  have run: "map file_name (written (snd (issue_certificates [ada, alan] 2 10 20 ''cert.png''
       ''names.csv'' ''FreeMono.ttf'' 40 ''OFF'' 0 0 0 demo_world))) =
     [''Ada Lovelace.pdf'', ''Ada Lovelace.PNG'', ''Alan Turing.pdf'', ''Alan Turing.PNG'']"
    by (simp add: issue_certificates_def issue_row_def compose_def entry_text_def save_def
        convert_def alpha_composite_def full_name_def index_def py_range_def demo_world_def
        ada_def alan_def Let_def lower_def lower_char_def lower_table_def upt_rec)
  show ?thesis
    by (simp add: main_def demo_args_def checks demo_extension demo_roster run)
qed

text \<open>
  A run that passes all six checks and still saves nothing: at font size 10000 the text
  does not draw, in TEST mode and in FULL mode alike.
\<close>

lemma demo_draw_fails:
  "find isl (spec_checks (demo_args\<lparr>arg_s := 10000\<rparr>) demo_world) = None"
  "issue_certificates [ada, alan] 2 10 20 ''cert.png'' ''names.csv'' ''FreeMono.ttf'' 10000
     ''ON'' 0 0 0 demo_world = (DrawError ''Ada Lovelace'', demo_world)"
  "issue_certificates [ada, alan] 2 10 20 ''cert.png'' ''names.csv'' ''FreeMono.ttf'' 10000
     ''OFF'' 0 0 0 demo_world = (DrawError ''Ada Lovelace'', demo_world)"
  using demo_checks
  by (simp_all add: spec_checks_def demo_args_def issue_certificates_def issue_row_def
      compose_def entry_text_def convert_def full_name_def index_def py_range_def
      demo_world_def ada_def Let_def lower_def lower_char_def lower_table_def upt_rec)

text \<open>
  Claim C7.  The six checks (mode, font, image extension, coordinates, CSV extension,
  colours) run in that order before anything is rendered: when one of them fails, \<open>main\<close>
  ends the process with the failure of the first that fails, no file has been saved and
  the world is the initial one but for the lines the font check prints; so a run that
  saves a file is a run in which all six checks have passed.
\<close>

theorem main_validation_failure:
  "(find isl (spec_checks a w) = Some (Inl e) \<longrightarrow>
      fst (main a w) = e
      \<and> (\<exists>out. snd (main a w) = w\<lparr>stdout := out\<rparr>)
      \<and> written (snd (main a w)) = written w
      \<and> images (snd (main a w)) = images w)
   \<and> (written (snd (main a w)) \<noteq> written w \<longrightarrow> find isl (spec_checks a w) = None)"
proof -
  have stop: "fst (main a w) = e' \<and> (\<exists>out. snd (main a w) = w\<lparr>stdout := out\<rparr>)
      \<and> written (snd (main a w)) = written w \<and> images (snd (main a w)) = images w"
    if failed: "find isl (spec_checks a w) = Some (Inl e')" for e'
  proof -
    obtain out where "main a w = (e', w\<lparr>stdout := out\<rparr>)"
      using main_stops [OF failed] by blast
    then have "fst (main a w) = e'" and w': "snd (main a w) = w\<lparr>stdout := out\<rparr>"
      by simp_all
    moreover from w' have "\<exists>out. snd (main a w) = w\<lparr>stdout := out\<rparr>" ..
    moreover from w' have "written (snd (main a w)) = written w"
      and "images (snd (main a w)) = images w"
      by simp_all
    ultimately show ?thesis by blast
  qed
  have "find isl (spec_checks a w) = None" if wrote: "written (snd (main a w)) \<noteq> written w"
  proof (cases "find isl (spec_checks a w)")
    case None
    then show ?thesis .
  next
    case (Some c)
    then have "isl c"
      by (auto simp: find_Some_iff)
    then obtain e' where "c = Inl e'"
      by (cases c) simp_all
    with Some stop [of e'] wrote show ?thesis by simp
  qed
  with stop [of e] show ?thesis by blast
qed

theorem main_validation_failure_witness:
  "find isl (spec_checks (demo_args\<lparr>arg_r := 256\<rparr>) demo_world) =
     Some (Inl (SystemExit (Some ''Red must have value of range [0,255]'')))
   \<and> fst (main (demo_args\<lparr>arg_r := 256\<rparr>) demo_world) =
       SystemExit (Some ''Red must have value of range [0,255]'')
   \<and> written (snd (main (demo_args\<lparr>arg_r := 256\<rparr>) demo_world)) = []
   \<and> written (snd (main demo_args demo_world)) \<noteq> written demo_world
   \<and> find isl (spec_checks demo_args demo_world) = None"
proof -
  have h: "find isl (spec_checks (demo_args\<lparr>arg_r := 256\<rparr>) demo_world) =
     Some (Inl (SystemExit (Some ''Red must have value of range [0,255]'')))"
    by (simp add: spec_checks_def demo_args_def demo_world_def validate_test_mode_def
        validate_font_def validate_image_extension_def validate_coordinates_def
        validate_csv_extension_def validate_rgb_colors_def splitext_def rfind_def slice_def
        splitext_scan.simps lower_def lower_char_def lower_table_def)
  have wrote: "written (snd (main demo_args demo_world)) \<noteq> written demo_world"
    using demo_main_files by (auto simp: demo_written)
  from h wrote
    main_validation_failure [of "demo_args\<lparr>arg_r := 256\<rparr>" demo_world
      "SystemExit (Some ''Red must have value of range [0,255]'')"]
    main_validation_failure [of demo_args demo_world e for e]
  show ?thesis by (simp add: demo_written)
qed

section \<open>The resolution keyword\<close>

text \<open>
  Claim C8.  Both saved files of an entry should carry a \<^verbatim>\<open>resolution\<close> parameter of
  100.0.  On the run of FULL mode and the run of TEST mode below, the PNG does; the PDF is
  saved with a keyword spelled \<^verbatim>\<open>resoultion\<close> and has no \<^verbatim>\<open>resolution\<close> parameter.
\<close>

theorem pdf_saved_without_resolution:
  "map (\<lambda>f. (file_name f, params f, map_of (params f) ''resolution''))
     (written (snd (issue_certificates [ada] 1 10 20 ''cert.png'' ''names.csv'' ''FreeMono.ttf''
        40 ''OFF'' 0 0 0 demo_world))) =
     [(''Ada Lovelace.pdf'', [(''resoultion'', 100)], None),
      (''Ada Lovelace.PNG'', [(''resolution'', 100)], Some 100)]
   \<and> map (\<lambda>f. (file_name f, params f, map_of (params f) ''resolution''))
     (written (snd (issue_certificates [ada] 1 10 20 ''cert.png'' ''names.csv'' ''FreeMono.ttf''
        40 ''ON'' 0 0 0 demo_world))) =
     [(''TEST.pdf'', [(''resoultion'', 100)], None),
      (''TEST.png'', [(''resolution'', 100)], Some 100)]"
  by (simp add: issue_certificates_def issue_row_def compose_def entry_text_def save_def
      convert_def alpha_composite_def full_name_def index_def py_range_def demo_world_def
      ada_def Let_def lower_def lower_char_def lower_table_def)

section \<open>The first entry in TEST mode, and FULL mode on an empty roster\<close>

text \<open>
  Claim C9.  In TEST mode, when the roster is not empty the lookup of index 0 is in bounds
  (it yields the first entry) and the render succeeds: \<^verbatim>\<open>TEST.pdf\<close> and \<^verbatim>\<open>TEST.png\<close> are
  saved, each the template with the text of the first entry composited onto it, and the
  process ends with the success message.  On the empty roster that lookup fails with
  \<^verbatim>\<open>IndexError\<close>, which ends the process with nothing saved.  The template opens and
  its pixels can be read, the font loads, the text of the first entry (when there is one)
  draws on an overlay of the template's size, and the two names can be written.
\<close>

theorem test_mode_first_entry:
  assumes mode: "lower mode = ''on''"
      and template: "images w certification = Some img"
      and pixels: "decodes w certification"
      and font: "font_loads w (''fonts/'' @ font_name) font_size"
      and draw: "names_list \<noteq> [] \<Longrightarrow>
                 draws w (entry_text x y font_name font_size red green blue (hd names_list))
                   (width img, height img)"
      and pdf_ok: "writable w ''TEST.pdf''"
      and png_ok: "writable w ''TEST.png''"
  shows "(names_list \<noteq> [] \<longrightarrow>
            index names_list 0 = Inr (hd names_list)
          \<and> fst (issue_certificates names_list number_of_rows x y certification csv_file
                  font_name font_size mode red green blue w) =
              SystemExit (Some ''TEST certificates created successfully'')
          \<and> (\<exists>pdf png.
                written (snd (issue_certificates names_list number_of_rows x y certification
                  csv_file font_name font_size mode red green blue w)) =
                  written w @ [pdf, png]
              \<and> file_name pdf = ''TEST.pdf'' \<and> file_name png = ''TEST.png''
              \<and> width (picture pdf) = width img \<and> height (picture pdf) = height img
              \<and> width (picture png) = width img \<and> height (picture png) = height img
              \<and> marks (picture pdf) = marks img @
                   [entry_text x y font_name font_size red green blue (hd names_list)]
              \<and> marks (picture png) = marks img @
                   [entry_text x y font_name font_size red green blue (hd names_list)]))
       \<and> (names_list = [] \<longrightarrow>
            index names_list 0 = Inl IndexError
          \<and> issue_certificates names_list number_of_rows x y certification csv_file
                  font_name font_size mode red green blue w = (IndexError, w))"
proof (cases names_list)
  case Nil
  with mode template pixels font show ?thesis
    by (simp add: issue_certificates_def compose_def index_zero Let_def)
next
  case (Cons person others)
  with draw have "draws w (entry_text x y font_name font_size red green blue person)
                    (width img, height img)"
    by simp
  with Cons mode template pixels font pdf_ok png_ok show ?thesis
    by (simp add: issue_certificates_def compose_def save_def convert_def alpha_composite_def
        index_zero Let_def)
qed

theorem test_mode_first_entry_witness:
  "lower ''ON'' = ''on''
   \<and> index [ada] 0 = Inr ada
   \<and> fst (issue_certificates [ada] 1 10 20 ''cert.png'' ''names.csv'' ''FreeMono.ttf'' 40
            ''ON'' 0 0 0 demo_world) =
       SystemExit (Some ''TEST certificates created successfully'')
   \<and> map (\<lambda>f. (file_name f, map text_string (marks (picture f))))
        (written (snd (issue_certificates [ada] 1 10 20 ''cert.png'' ''names.csv''
            ''FreeMono.ttf'' 40 ''ON'' 0 0 0 demo_world))) =
       [(''TEST.pdf'', [''Ada Lovelace'']), (''TEST.png'', [''Ada Lovelace''])]
   \<and> index ([] :: entry list) 0 = Inl IndexError
   \<and> issue_certificates [] 0 10 20 ''cert.png'' ''names.csv'' ''FreeMono.ttf'' 40
            ''ON'' 0 0 0 demo_world = (IndexError, demo_world)"
proof -
  have d: "names \<noteq> [] \<Longrightarrow>
             draws demo_world (entry_text 10 20 ''FreeMono.ttf'' 40 0 0 0 (hd names))
               (width \<lparr>width = 800, height = 600, bands = ''RGB'', marks = []\<rparr>,
                height \<lparr>width = 800, height = 600, bands = ''RGB'', marks = []\<rparr>)"
    for names :: "entry list"
    by (rule demo_draws)
  have full: "[ada] \<noteq> []" and empty: "([] :: entry list) = []"
    by simp_all
  from test_mode_first_entry [OF lower_ON demo_template demo_decodes demo_font d
      demo_test_files,
      where names_list = "[ada]" and number_of_rows = 1 and csv_file = "''names.csv''"]
    full
  obtain pdf png where
    "index [ada] 0 = Inr ada"
    "fst (issue_certificates [ada] 1 10 20 ''cert.png'' ''names.csv'' ''FreeMono.ttf'' 40
            ''ON'' 0 0 0 demo_world) =
       SystemExit (Some ''TEST certificates created successfully'')"
    "written (snd (issue_certificates [ada] 1 10 20 ''cert.png'' ''names.csv''
            ''FreeMono.ttf'' 40 ''ON'' 0 0 0 demo_world)) = [pdf, png]"
    "file_name pdf = ''TEST.pdf''" "file_name png = ''TEST.png''"
    "map text_string (marks (picture pdf)) = [''Ada Lovelace'']"
    "map text_string (marks (picture png)) = [''Ada Lovelace'']"
    by (auto simp: demo_written entry_text_def full_name_def ada_def)
  moreover
  from test_mode_first_entry [OF lower_ON demo_template demo_decodes demo_font d
      demo_test_files,
      where names_list = "[]" and number_of_rows = 0 and csv_file = "''names.csv''"]
    empty
  have "index ([] :: entry list) 0 = Inl IndexError"
    "issue_certificates [] 0 10 20 ''cert.png'' ''names.csv'' ''FreeMono.ttf'' 40
            ''ON'' 0 0 0 demo_world = (IndexError, demo_world)"
    by simp_all
  ultimately show ?thesis
    using lower_ON by simp
qed

text \<open>
  Claim C10.  In FULL mode (the mode, lowered, is not \<^verbatim>\<open>on\<close>) with an empty roster and
  count 0, \<open>issue_certificates\<close> saves no file, leaves the world as it was, and ends the
  process with the message \<^verbatim>\<open>Certificates created successfully\<close>.
\<close>

theorem issue_certificates_empty_full:
  assumes "lower mode \<noteq> ''on''"
  shows "issue_certificates [] 0 x y certification csv_file font_name font_size mode
           red green blue w =
           (SystemExit (Some ''Certificates created successfully''), w)"
  using assms by (simp add: issue_certificates_def py_range_def)

theorem issue_certificates_empty_full_witness:
  "lower ''OFF'' \<noteq> ''on''
   \<and> issue_certificates [] 0 10 20 ''cert.png'' ''names.csv'' ''FreeMono.ttf'' 40 ''OFF'' 0 0 0
        demo_world =
      (SystemExit (Some ''Certificates created successfully''), demo_world)
   \<and> written demo_world = []"
  using lower_OFF demo_written
    issue_certificates_empty_full [OF lower_OFF,
      where x = 10 and y = 20 and certification = "''cert.png''" and csv_file = "''names.csv''"
        and font_name = "''FreeMono.ttf''" and font_size = 40 and red = 0 and green = 0
        and blue = 0 and w = demo_world]
  by simp

end
